theory Spec2Isabelle
  imports Main "HOL-Library.Multiset"
begin

text \<open>
  A model of the gateway's route \<^verbatim>\<open>POST /generate-confluence\<close>: the upload intake configured
  for multer, the handler that validates the request, assembles the multipart payload,
  forwards it with axios and maps the outcome to a response, and the cleanup of the
  uploaded files. The model follows the revision of the server whose handler validates the
  required fields; the storage and the file filter are the same in both revisions.
\<close>

section \<open>JavaScript values\<close>

text \<open>
  A JavaScript string is a sequence of UTF-16 code units; a code unit is modelled as a
  natural number. \<open>lit\<close> turns a literal of the source text into such a string.
\<close>

type_synonym js_string = "nat list"

definition lit :: "string \<Rightarrow> js_string" where
  "lit s = map of_char s"

text \<open>
  The values that travel through the handler as JSON: the body the upstream service
  answers with, and the bodies the handler passes to \<^verbatim>\<open>res.json\<close>. \<open>JNum\<close> carries the
  integer-valued numbers (a count, a status); fractions do not occur in the handler.
  An object is the list of its own properties.
\<close>

datatype jsval =
    JUndefined
  | JNull
  | JBool bool
  | JNum int
  | JStr js_string
  | JArr "jsval list"
  | JObj "(js_string \<times> jsval) list"

text \<open>What \<^verbatim>\<open>!x\<close> and \<^verbatim>\<open>a || b\<close> test: ToBoolean.\<close>

fun truthy :: "jsval \<Rightarrow> bool" where
  "truthy JUndefined = False"
| "truthy JNull = False"
| "truthy (JBool b) = b"
| "truthy (JNum n) = (n \<noteq> 0)"
| "truthy (JStr s) = (s \<noteq> [])"
| "truthy (JArr xs) = True"
| "truthy (JObj kvs) = True"

text \<open>\<^verbatim>\<open>a || b\<close>: the left operand when it is truthy, the right one otherwise.\<close>

definition js_or :: "jsval \<Rightarrow> jsval \<Rightarrow> jsval" where
  "js_or a b = (if truthy a then a else b)"

text \<open>
  The property read \<^verbatim>\<open>data?.name\<close>, for the names the handler reads from the upstream body
  (\<^verbatim>\<open>pageURL\<close>, \<^verbatim>\<open>pageUrl\<close>, \<^verbatim>\<open>confluencePageUrl\<close>, \<^verbatim>\<open>url\<close>): undefined on \<^verbatim>\<open>undefined\<close> and
  \<^verbatim>\<open>null\<close> (the optional chain), the own property of an object, and undefined on a string,
  number, boolean or array, none of which has a property of one of these names.
\<close>

fun opt_prop :: "jsval \<Rightarrow> js_string \<Rightarrow> jsval" where
  "opt_prop (JObj kvs) k = (case map_of kvs k of Some v \<Rightarrow> v | None \<Rightarrow> JUndefined)"
| "opt_prop _ k = JUndefined"

text \<open>
  A field of \<^verbatim>\<open>req.body\<close> after destructuring: the value the body holds under the name, or
  undefined when it holds none. multer delivers a text field as a string, and a repeated or
  bracketed field name as an array or a nested object; the JSON body parser delivers any
  JSON value.
\<close>

definition field_val :: "jsval option \<Rightarrow> jsval" where
  "field_val v = (case v of None \<Rightarrow> JUndefined | Some x \<Rightarrow> x)"

text \<open>An exception or rejection value: \<^verbatim>\<open>message\<close>, and axios's \<^verbatim>\<open>response\<close> (status and body)
  and \<^verbatim>\<open>request\<close> when it set them.\<close>

record js_error =
  err_message :: js_string
  err_response :: "(int \<times> jsval) option"
  err_request :: bool

text \<open>
  \<^verbatim>\<open>new Error(msg)\<close>, and likewise a \<^verbatim>\<open>TypeError\<close> the engine throws: a message, no
  \<^verbatim>\<open>response\<close> and no \<^verbatim>\<open>request\<close>.
\<close>

definition new_Error :: "js_string \<Rightarrow> js_error" where
  "new_Error msg = \<lparr>err_message = msg, err_response = None, err_request = False\<rparr>"

text \<open>
  What the handler leaves to the JavaScript engine. \<open>to_text\<close> is the conversion to a string
  of a number, an array or an object, which depends on the number's shortest decimal form
  and on the object's prototype and properties: the text, or the message of the
  \<^verbatim>\<open>TypeError\<close> it throws. \<open>not_a_function\<close> is the message of the \<^verbatim>\<open>TypeError\<close> thrown when
  \<^verbatim>\<open>pageToBeCreatedTitle?.replace\<close> is called on a value that has no such method.
\<close>

record engine =
  to_text :: "jsval \<Rightarrow> js_string + js_string"
  not_a_function :: js_string

text \<open>The conversion a template literal applies to a substitution: ToString.\<close>

fun ToString :: "engine \<Rightarrow> jsval \<Rightarrow> js_error + js_string" where
  "ToString eng JUndefined = Inr (lit ''undefined'')"
| "ToString eng JNull = Inr (lit ''null'')"
| "ToString eng (JBool b) = Inr (if b then lit ''true'' else lit ''false'')"
| "ToString eng (JStr s) = Inr s"
| "ToString eng v = (case to_text eng v of Inl msg \<Rightarrow> Inl (new_Error msg) | Inr s \<Rightarrow> Inr s)"

section \<open>Strings: whitespace runs and decimal numerals\<close>

text \<open>
  The code units the regular expression class \<^verbatim>\<open>\s\<close> matches: tab, line feed, vertical tab,
  form feed, carriage return, space, no-break space, the byte order mark, the line and
  paragraph separators and the Unicode space separators.
\<close>

definition is_space :: "nat \<Rightarrow> bool" where
  "is_space c \<longleftrightarrow>
     c = 9 \<or> c = 10 \<or> c = 11 \<or> c = 12 \<or> c = 13 \<or> c = 32 \<or> c = 160 \<or> c = 5760 \<or>
     (8192 \<le> c \<and> c \<le> 8202) \<or> c = 8232 \<or> c = 8233 \<or> c = 8239 \<or> c = 8287 \<or>
     c = 12288 \<or> c = 65279"

text \<open>\<^verbatim>\<open>title.replace(/\s+/g, '+')\<close>: every maximal run of whitespace becomes one plus sign.\<close>

function replace_ws :: "js_string \<Rightarrow> js_string" where
  "replace_ws [] = []"
| "replace_ws (c # cs) =
     (if is_space c then 43 # replace_ws (dropWhile is_space cs) else c # replace_ws cs)"
  by pat_completeness auto
termination
  by (relation "measure length") (auto simp: length_dropWhile_le less_Suc_eq_le)

text \<open>
  The decimal numeral of a natural number, as string concatenation renders the integer
  \<^verbatim>\<open>Date.now()\<close> returns (milliseconds since the epoch).
\<close>

fun digits :: "nat \<Rightarrow> js_string" where
  "digits n = (if n < 10 then [48 + n] else digits (n div 10) @ [48 + n mod 10])"

declare digits.simps [simp del]

text \<open>
  \<^verbatim>\<open>pageToBeCreatedTitle?.replace(/\s+/g, '+')\<close>: undefined on \<^verbatim>\<open>undefined\<close> and \<^verbatim>\<open>null\<close> (the
  optional chain), the replacement on a string, and a \<^verbatim>\<open>TypeError\<close> on any other value, none
  of which has a callable \<^verbatim>\<open>replace\<close>.
\<close>

fun title_replace :: "engine \<Rightarrow> jsval \<Rightarrow> js_error + jsval" where
  "title_replace eng JUndefined = Inr JUndefined"
| "title_replace eng JNull = Inr JUndefined"
| "title_replace eng (JStr t) = Inr (JStr (replace_ws t))"
| "title_replace eng v = Inl (new_Error (not_a_function eng))"

section \<open>Upload intake (multer)\<close>

text \<open>
  A file part of the incoming multipart form, with the reading of \<^verbatim>\<open>Date.now()\<close> at the
  moment the storage names it. \<open>in_originalname\<close> is the file name as multer sees it: the
  base name of the client's file name, which holds no path separator and is empty when the
  part carries no file name or the name \<^verbatim>\<open>.\<close> or \<^verbatim>\<open>..\<close>.
\<close>

record incoming =
  in_fieldname :: js_string
  in_originalname :: js_string
  in_mimetype :: js_string
  in_now :: nat

text \<open>The file object multer puts into \<^verbatim>\<open>req.files\<close>.\<close>

record uploaded_file =
  fieldname :: js_string
  originalname :: js_string
  mimetype :: js_string
  path :: js_string

definition allowedFields :: "js_string list" where
  "allowedFields = [lit ''tddIrdFiles'', lit ''postmanFiles'', lit ''commFiles'', lit ''files'']"

text \<open>The \<^verbatim>\<open>fileFilter\<close> callback: accept the file, or fail with an error naming the field.\<close>

definition fileFilter :: "incoming \<Rightarrow> js_error + bool" where
  "fileFilter file =
     (if in_fieldname file \<in> set allowedFields then Inr True
      else Inl (new_Error (lit ''Unexpected field: '' @ in_fieldname file)))"

text \<open>The \<^verbatim>\<open>destination\<close> and \<^verbatim>\<open>filename\<close> callbacks of the disk storage.\<close>

definition uploadDir :: js_string where
  "uploadDir = lit ''uploads/''"

definition filename :: "incoming \<Rightarrow> js_string" where
  "filename file = digits (in_now file) @ lit ''-'' @ in_originalname file"

text \<open>
  Where the disk storage writes the file: \<^verbatim>\<open>path.join(destination, filename)\<close>, which is
  concatenation here since the file name holds no separator.
\<close>

definition stored_path :: "incoming \<Rightarrow> js_string" where
  "stored_path file = uploadDir @ filename file"

definition store_file :: "incoming \<Rightarrow> uploaded_file" where
  "store_file file =
     \<lparr>fieldname = in_fieldname file, originalname = in_originalname file,
      mimetype = in_mimetype file, path = stored_path file\<rparr>"

section \<open>The outbound payload\<close>

text \<open>
  A part of the multipart form sent upstream, as \<^verbatim>\<open>formData.append\<close> receives it: a text part
  whose content is \<^verbatim>\<open>JSON.stringify\<close> of a value (the part keeps the value), or a file part
  that streams the file stored at a path under a declared file name and content type.
\<close>

datatype form_part =
    TextPart js_string jsval
  | FilePart js_string js_string js_string js_string

section \<open>The world outside the handler\<close>

text \<open>
  The Temporary Store is the set of paths present under \<^verbatim>\<open>uploads/\<close>. The world also
  records, in order, every deletion that succeeded and every payload handed to
  \<^verbatim>\<open>axios.post\<close> for the upstream service.
\<close>

record world =
  store :: "js_string set"
  deleted :: "js_string list"
  sent :: "form_part list list"

datatype fs_error = ENOENT

text \<open>\<^verbatim>\<open>fs.unlinkSync(path)\<close>: removes the file, or throws when there is none.\<close>

definition unlinkSync :: "js_string \<Rightarrow> world \<Rightarrow> fs_error + world" where
  "unlinkSync p w =
     (if p \<in> store w then Inr (w\<lparr>store := store w - {p}, deleted := deleted w @ [p]\<rparr>)
      else Inl ENOENT)"

text \<open>\<^verbatim>\<open>try { fs.unlinkSync(file.path) } catch (cleanupError) { console.error(...) }\<close>\<close>

definition try_unlink :: "uploaded_file \<Rightarrow> world \<Rightarrow> world" where
  "try_unlink file w = (case unlinkSync (path file) w of Inl e \<Rightarrow> w | Inr w' \<Rightarrow> w')"

text \<open>
  The cleanup block, which stands twice in the handler: after the upstream call on the
  success path and at the head of the \<^verbatim>\<open>catch\<close> block.
\<close>

definition cleanup :: "uploaded_file list option \<Rightarrow> world \<Rightarrow> world" where
  "cleanup fs w =
     (case fs of
        None \<Rightarrow> w
      | Some l \<Rightarrow> if length l > 0 then fold try_unlink l w else w)"

text \<open>
  \<^verbatim>\<open>upload.any()\<close> with the storage and the filter above, over the file parts of a multipart
  request in arrival order. multer drops a part with an empty file name before the filter
  sees it. The filter runs before a file is stored; an accepted file is written under its
  stored path and appended to \<^verbatim>\<open>req.files\<close>. When the filter fails, multer keeps the first
  error; the parts that arrive with the failing one are still handled, so a later accepted
  file is still stored and a later failure is dropped. At the end multer removes every
  file it has stored for the request and passes the error on, and the route handler does
  not run. \<open>failed\<close> is the first error so far.
\<close>

definition removeUploadedFiles :: "uploaded_file list \<Rightarrow> world \<Rightarrow> world" where
  "removeUploadedFiles l w = fold try_unlink l w"

fun upload_any ::
  "incoming list \<Rightarrow> uploaded_file list \<Rightarrow> js_error option \<Rightarrow> world \<Rightarrow>
     (js_error \<times> world) + (uploaded_file list \<times> world)"
where
  "upload_any [] acc failed w =
     (case failed of
        Some err \<Rightarrow> Inl (err, removeUploadedFiles acc w)
      | None \<Rightarrow> Inr (acc, w))"
| "upload_any (file # rest) acc failed w =
     (if in_originalname file = [] then upload_any rest acc failed w
      else case fileFilter file of
             Inl err \<Rightarrow>
               upload_any rest acc (case failed of None \<Rightarrow> Some err | Some first \<Rightarrow> Some first) w
           | Inr include \<Rightarrow>
               if include
               then upload_any rest (acc @ [store_file file]) failed
                      (w\<lparr>store := insert (stored_path file) (store w)\<rparr>)
               else upload_any rest acc failed w)"

section \<open>The handler of POST /generate-confluence\<close>

text \<open>
  The request as the handler sees it. \<open>body\<close> is \<^verbatim>\<open>req.body\<close>: the values the parsed body
  holds by name, or \<open>None\<close> when no parser has set it (\<^verbatim>\<open>undefined\<close>), which is when the
  handler's first guard \<^verbatim>\<open>!req.body || typeof req.body !== 'object'\<close> fires. \<open>files\<close> is
  \<^verbatim>\<open>req.files\<close>, which multer sets for a multipart request only. \<open>content_type\<close> is
  \<^verbatim>\<open>req.headers['content-type']\<close>.
\<close>

record request =
  body :: "(js_string \<rightharpoonup> jsval) option"
  files :: "uploaded_file list option"
  content_type :: jsval

datatype response =
    JsonResponse int jsval
  | ErrorPage int js_error

fun status :: "response \<Rightarrow> int" where
  "status (JsonResponse s b) = s"
| "status (ErrorPage s e) = s"

text \<open>What \<^verbatim>\<open>axios.post\<close> settles with: a response (status and body), or a rejection.\<close>

datatype axios_outcome =
    Resolved int jsval
  | Rejected js_error

text \<open>The fifteen destructured fields that go into \<^verbatim>\<open>pageData\<close>, in its order.\<close>

definition metadataFields :: "js_string list" where
  "metadataFields =
     [lit ''apiType'', lit ''fetchPropertyFile'', lit ''selectedGitOrg'', lit ''wikiSpaceKey'',
      lit ''pageToBeCreatedTitle'', lit ''pageToBeCreatedParentPageTitle'', lit ''appName'',
      lit ''l0ProductionSupport'', lit ''l0ProductionSupportEmail'', lit ''l2MulesoftSupport'',
      lit ''l2MulesoftSupportEmail'', lit ''integrationDevTeam'', lit ''integrationDevTeamEmail'',
      lit ''businessTeam'', lit ''businessTeamEmail'']"


text \<open>\<^verbatim>\<open>req.files && req.files.length > 0\<close>\<close>

definition hasFiles :: "uploaded_file list option \<Rightarrow> jsval" where
  "hasFiles fs = (case fs of None \<Rightarrow> JUndefined | Some l \<Rightarrow> JBool (length l > 0))"

definition pageData :: "(js_string \<rightharpoonup> jsval) \<Rightarrow> uploaded_file list option \<Rightarrow> jsval" where
  "pageData b fs =
     JObj (map (\<lambda>k. (k, field_val (b k))) metadataFields @ [(lit ''hasFiles'', hasFiles fs)])"

text \<open>
  \<^verbatim>\<open>formData.append(name, fs.createReadStream(file.path),
      {filename: file.originalname, contentType: file.mimetype})\<close>
\<close>

definition file_part :: "js_string \<Rightarrow> uploaded_file \<Rightarrow> form_part" where
  "file_part name file = FilePart name (path file) (originalname file) (mimetype file)"

text \<open>One category block: the files of one field name, when there is any, appended in order.\<close>

definition category_parts :: "js_string \<Rightarrow> uploaded_file list \<Rightarrow> form_part list" where
  "category_parts name l =
     (let categoryFiles = filter (\<lambda>file. fieldname file = name) l
      in if length categoryFiles > 0 then map (file_part name) categoryFiles else [])"

definition formData :: "(js_string \<rightharpoonup> jsval) \<Rightarrow> uploaded_file list option \<Rightarrow> form_part list" where
  "formData b fs =
     TextPart (lit ''data'') (pageData b fs) #
     (case fs of
        None \<Rightarrow> []
      | Some l \<Rightarrow>
          if length l > 0
          then category_parts (lit ''tddIrdFiles'') l @ category_parts (lit ''postmanFiles'') l @
               category_parts (lit ''commFiles'') l @ category_parts (lit ''files'') l
          else [])"

text \<open>
  The template literal of the fallback URL. Its substitutions are evaluated and converted
  from left to right, so the space key is converted before the title's \<^verbatim>\<open>replace\<close> is
  called; the first \<^verbatim>\<open>TypeError\<close> ends the evaluation.
\<close>

definition fallbackUrl :: "engine \<Rightarrow> jsval \<Rightarrow> jsval \<Rightarrow> js_error + js_string" where
  "fallbackUrl eng wikiSpaceKey pageToBeCreatedTitle =
     (case ToString eng wikiSpaceKey of
        Inl err \<Rightarrow> Inl err
      | Inr key \<Rightarrow>
          (case title_replace eng pageToBeCreatedTitle of
             Inl err \<Rightarrow> Inl err
           | Inr replaced \<Rightarrow>
               (case ToString eng replaced of
                  Inl err \<Rightarrow> Inl err
                | Inr title \<Rightarrow>
                    Inr (lit ''https://wiki.intel.com/display/'' @ key @ lit ''/'' @ title))))"

text \<open>
  The chain \<^verbatim>\<open>data?.pageURL || data?.pageUrl || data?.confluencePageUrl || data?.url || `...`\<close>:
  the template literal is evaluated only when the four fields are all falsy.
\<close>

definition pageUrl :: "engine \<Rightarrow> jsval \<Rightarrow> jsval \<Rightarrow> jsval \<Rightarrow> js_error + jsval" where
  "pageUrl eng data wikiSpaceKey pageToBeCreatedTitle =
     (let found = js_or (js_or (js_or (opt_prop data (lit ''pageURL''))
                                      (opt_prop data (lit ''pageUrl'')))
                               (opt_prop data (lit ''confluencePageUrl'')))
                        (opt_prop data (lit ''url''))
      in if truthy found then Inr found
         else (case fallbackUrl eng wikiSpaceKey pageToBeCreatedTitle of
                 Inl err \<Rightarrow> Inl err
               | Inr url \<Rightarrow> Inr (JStr url)))"

text \<open>The three branches of the \<^verbatim>\<open>catch\<close> block, after its cleanup.\<close>

definition error_response :: "js_error \<Rightarrow> response" where
  "error_response error =
     (case err_response error of
        Some (st, data) \<Rightarrow>
          JsonResponse st
            (JObj [(lit ''status'', JStr (lit ''error'')),
                   (lit ''error'', JStr (lit ''Mulesoft API error'')),
                   (lit ''details'', data),
                   (lit ''message'', JStr (err_message error))])
      | None \<Rightarrow>
          if err_request error
          then JsonResponse 500
            (JObj [(lit ''status'', JStr (lit ''error'')),
                   (lit ''error'', JStr (lit ''No response from Mulesoft API'')),
                   (lit ''message'', JStr (lit ''Network or timeout error''))])
          else JsonResponse 500
            (JObj [(lit ''status'', JStr (lit ''error'')),
                   (lit ''error'', JStr (lit ''Failed to generate Confluence page'')),
                   (lit ''message'', JStr (err_message error))]))"

text \<open>The response to a request whose body is not an object.\<close>

definition malformed_body :: "request \<Rightarrow> response" where
  "malformed_body req =
     JsonResponse 400
       (JObj [(lit ''status'', JStr (lit ''error'')),
              (lit ''message'', JStr (lit
                 ''Request body is missing or malformed. Make sure you're sending form data correctly.'')),
              (lit ''debug'',
               JObj [(lit ''bodyType'', JStr (lit ''undefined'')),
                     (lit ''bodyValue'', JUndefined),
                     (lit ''contentType'', content_type req),
                     (lit ''filesReceived'',
                      JNum (case files req of None \<Rightarrow> 0 | Some l \<Rightarrow> int (length l))),
                     (lit ''expectedContentType'', JStr (lit ''multipart/form-data''))])])"

definition required :: "string \<Rightarrow> response" where
  "required name =
     JsonResponse 400
       (JObj [(lit ''status'', JStr (lit ''error'')),
              (lit ''message'', JStr (lit (name @ '' is required'')))])"

text \<open>
  The handler. \<open>upstream\<close> is the upstream service behind \<^verbatim>\<open>axios.post\<close>: what the call
  settles with for a payload. The handler returns the response it emits and the world it
  leaves. An error thrown after the call, by the fallback URL, reaches the same \<^verbatim>\<open>catch\<close>
  block as a rejection of the call.
\<close>

definition handler ::
  "engine \<Rightarrow> (form_part list \<Rightarrow> axios_outcome) \<Rightarrow> request \<Rightarrow> world \<Rightarrow> response \<times> world"
where
  "handler eng upstream req w =
     (case body req of
        None \<Rightarrow> (malformed_body req, w)
      | Some b \<Rightarrow>
          let wikiSpaceKey = field_val (b (lit ''wikiSpaceKey''));
              pageToBeCreatedTitle = field_val (b (lit ''pageToBeCreatedTitle''))
          in if \<not> truthy pageToBeCreatedTitle
             then (required ''pageToBeCreatedTitle'', w)
             else if \<not> truthy wikiSpaceKey
             then (required ''wikiSpaceKey'', w)
             else
               let form = formData b (files req);
                   w1 = w\<lparr>sent := sent w @ [form]\<rparr>
               in (case upstream form of
                     Resolved st data \<Rightarrow>
                       (case pageUrl eng data wikiSpaceKey pageToBeCreatedTitle of
                          Inr url \<Rightarrow>
                            (let w2 = cleanup (files req) w1
                             in (JsonResponse 200
                                   (JObj [(lit ''message'',
                                           JStr (lit ''Confluence page generated successfully'')),
                                          (lit ''pageUrl'', url)]),
                                 w2))
                        | Inl error \<Rightarrow> (error_response error, cleanup (files req) w1))
                   | Rejected error \<Rightarrow> (error_response error, cleanup (files req) w1)))"

section \<open>The route\<close>

text \<open>
  A request to the route: a multipart form (its content type header, the body multer
  builds from its text fields, and its file parts), or a request of another content type,
  which multer passes through untouched, with the body another parser has set, if any.
\<close>

datatype http_request =
    Multipart jsval "js_string \<rightharpoonup> jsval" "incoming list"
  | NotMultipart jsval "(js_string \<rightharpoonup> jsval) option"

text \<open>
  The application registers no error-handling middleware, so an error passed on by a
  middleware reaches the default error handler of Express, which answers with the
  error's \<^verbatim>\<open>status\<close> property when it has one in the 4xx or 5xx range, and with 500
  otherwise. An \<^verbatim>\<open>Error\<close> made by \<^verbatim>\<open>new Error\<close> has none.
\<close>

definition default_error_handler :: "js_error \<Rightarrow> response" where
  "default_error_handler err = ErrorPage 500 err"

text \<open>\<^verbatim>\<open>app.post("/generate-confluence", upload.any(), async (req, res) => ...)\<close>\<close>

definition generate_confluence ::
  "engine \<Rightarrow> (form_part list \<Rightarrow> axios_outcome) \<Rightarrow> http_request \<Rightarrow> world \<Rightarrow> response \<times> world"
where
  "generate_confluence eng upstream hreq w =
     (case hreq of
        Multipart ct text_fields parts \<Rightarrow>
          (case upload_any parts [] None w of
             Inl (err, w') \<Rightarrow> (default_error_handler err, w')
           | Inr (fs, w') \<Rightarrow>
               handler eng upstream \<lparr>body = Some text_fields, files = Some fs, content_type = ct\<rparr> w')
      | NotMultipart ct b \<Rightarrow>
          handler eng upstream \<lparr>body = b, files = None, content_type = ct\<rparr> w)"

section \<open>Vocabulary of the specification\<close>

text \<open>
  The position of a file's category in the fixed order primaryDocs (\<^verbatim>\<open>tddIrdFiles\<close>),
  apiCollections (\<^verbatim>\<open>postmanFiles\<close>), communications (\<^verbatim>\<open>commFiles\<close>), general (\<^verbatim>\<open>files\<close>).
\<close>

definition category_index :: "uploaded_file \<Rightarrow> nat" where
  "category_index file =
     (if fieldname file = lit ''tddIrdFiles'' then 0
      else if fieldname file = lit ''postmanFiles'' then 1
      else if fieldname file = lit ''commFiles'' then 2
      else 3)"

text \<open>
  The part a file should travel as: under its own field name, streaming its stored path,
  declaring its original name and its MIME type.
\<close>

definition part_of :: "uploaded_file \<Rightarrow> form_part" where
  "part_of file = FilePart (fieldname file) (path file) (originalname file) (mimetype file)"

text \<open>The value serialised into the leading JSON part of a payload.\<close>

definition metadata_of :: "form_part list \<Rightarrow> jsval" where
  "metadata_of parts = (case parts of TextPart name v # rest \<Rightarrow> v | _ \<Rightarrow> JUndefined)"

text \<open>Files that passed the intake filter: every field name is on the allow-list.\<close>

definition accepted :: "uploaded_file list \<Rightarrow> bool" where
  "accepted l \<longleftrightarrow> set (map fieldname l) \<subseteq> set allowedFields"

text \<open>The four category blocks the handler builds, one after the other.\<close>

definition by_category :: "uploaded_file list \<Rightarrow> uploaded_file list" where
  "by_category l =
     filter (\<lambda>file. fieldname file = lit ''tddIrdFiles'') l @
     filter (\<lambda>file. fieldname file = lit ''postmanFiles'') l @
     filter (\<lambda>file. fieldname file = lit ''commFiles'') l @
     filter (\<lambda>file. fieldname file = lit ''files'') l"

text \<open>A field that is missing or empty.\<close>

definition missing_or_empty :: "jsval \<Rightarrow> bool" where
  "missing_or_empty v \<longleftrightarrow> v = JUndefined \<or> v = JStr []"

text \<open>The parts of a request to the route: its parsed body, its content type header and
  its file parts (none for a request that is not multipart).\<close>

fun parsed_body :: "http_request \<Rightarrow> (js_string \<rightharpoonup> jsval) option" where
  "parsed_body (Multipart ct b parts) = Some b"
| "parsed_body (NotMultipart ct b) = b"

fun header :: "http_request \<Rightarrow> jsval" where
  "header (Multipart ct b parts) = ct"
| "header (NotMultipart ct b) = ct"

fun file_parts :: "http_request \<Rightarrow> incoming list option" where
  "file_parts (Multipart ct b parts) = Some parts"
| "file_parts (NotMultipart ct b) = None"

text \<open>The field of a request by name; a request without a parsed body has none.\<close>

definition request_field :: "http_request \<Rightarrow> js_string \<Rightarrow> jsval" where
  "request_field hreq name =
     (case parsed_body hreq of None \<Rightarrow> JUndefined | Some b \<Rightarrow> field_val (b name))"

text \<open>
  A file part the intake looks at (it carries a file name) and rejects (its field name is
  off the allow-list) or stores (its field name is on it).
\<close>

definition allowed :: "incoming \<Rightarrow> bool" where
  "allowed file \<longleftrightarrow> in_fieldname file \<in> set allowedFields"

definition rejected :: "incoming \<Rightarrow> bool" where
  "rejected file \<longleftrightarrow> in_originalname file \<noteq> [] \<and> \<not> allowed file"

definition stored :: "incoming \<Rightarrow> bool" where
  "stored file \<longleftrightarrow> in_originalname file \<noteq> [] \<and> allowed file"

text \<open>A request whose file parts all pass the upload filter, so that the handler runs.\<close>

definition filter_passes :: "http_request \<Rightarrow> bool" where
  "filter_passes hreq =
     (case file_parts hreq of None \<Rightarrow> True | Some parts \<Rightarrow> find rejected parts = None)"

text \<open>The fields of the upstream body that may hold the page URL, in priority order.\<close>

definition urlFields :: "js_string list" where
  "urlFields = [lit ''pageURL'', lit ''pageUrl'', lit ''confluencePageUrl'', lit ''url'']"

text \<open>
  The first of these fields that the upstream body has at all, whatever its value: the
  reading of \<^emph>\<open>first present field\<close> by the presence of the key.
\<close>

fun has_prop :: "jsval \<Rightarrow> js_string \<Rightarrow> bool" where
  "has_prop (JObj kvs) k = (map_of kvs k \<noteq> None)"
| "has_prop _ k = False"

definition first_present :: "jsval \<Rightarrow> jsval option" where
  "first_present data = map_option (opt_prop data) (find (has_prop data) urlFields)"

text \<open>The JSON body of a response; the error page of the framework has none.\<close>

fun json_body :: "response \<Rightarrow> jsval" where
  "json_body (JsonResponse s b) = b"
| "json_body (ErrorPage s e) = JUndefined"

text \<open>
  An engine for the worked examples, none of which converts a number, an array or an
  object to a string.
\<close>

definition example_engine :: engine where
  "example_engine =
     \<lparr>to_text = (\<lambda>v. Inl (lit ''Cannot convert object to primitive value'')),
      not_a_function = lit ''pageToBeCreatedTitle?.replace is not a function''\<rparr>"

text \<open>
  The error the intake ends with: the first failure so far, or else the error of the
  first part the filter rejects.
\<close>

definition first_error :: "js_error option \<Rightarrow> incoming list \<Rightarrow> js_error option" where
  "first_error failed parts =
     (case failed of
        Some err \<Rightarrow> Some err
      | None \<Rightarrow>
          map_option (\<lambda>bad. new_Error (lit ''Unexpected field: '' @ in_fieldname bad))
            (find rejected parts))"

section \<open>Strings\<close>

lemma lit_eq_iff [simp]: "lit a = lit b \<longleftrightarrow> a = b"
  unfolding lit_def by (simp add: inj_map_eq_map inj_on_def)

lemma lit_append: "lit (a @ b) = lit a @ lit b"
  by (simp add: lit_def)

lemma lit_Nil_iff [simp]: "lit s = [] \<longleftrightarrow> s = []"
  by (simp add: lit_def)

lemma digits_range: "c \<in> set (digits n) \<Longrightarrow> 48 \<le> c \<and> c \<le> 57"
proof (induction n rule: digits.induct)
  case (1 n)
  show ?case
  proof (cases "n < 10")
    case True
    with "1.prems" show ?thesis by (simp add: digits.simps [of n])
  next
    case False
    with "1.prems" have "c \<in> set (digits (n div 10)) \<or> c = 48 + n mod 10"
      by (auto simp add: digits.simps [of n])
    with False "1.IH" show ?thesis by auto
  qed
qed

lemma digits_nonempty: "digits n \<noteq> []"
  by (simp add: digits.simps [of n])

lemma digits_inj: "digits m = digits n \<Longrightarrow> m = n"
proof (induction m arbitrary: n rule: digits.induct)
  case (1 m)
  show ?case
  proof (cases "m < 10")
    case True
    note m = this
    show ?thesis
    proof (cases "n < 10")
      case True
      with m "1.prems" show ?thesis by (simp add: digits.simps [of m] digits.simps [of n])
    next
      case False
      with m "1.prems" digits_nonempty [of "n div 10"] show ?thesis
        by (simp add: digits.simps [of m] digits.simps [of n] Cons_eq_append_conv)
    qed
  next
    case False
    note m = this
    show ?thesis
    proof (cases "n < 10")
      case True
      with m "1.prems" digits_nonempty [of "m div 10"] show ?thesis
        by (simp add: digits.simps [of m] digits.simps [of n] append_eq_Cons_conv)
    next
      case False
      with m "1.prems" have "digits (m div 10) = digits (n div 10)" "m mod 10 = n mod 10"
        by (simp_all add: digits.simps [of m] digits.simps [of n])
      with m "1.IH" [of "n div 10"] have "m div 10 = n div 10" by simp
      with \<open>m mod 10 = n mod 10\<close> show ?thesis
        by (metis div_mult_mod_eq)
    qed
  qed
qed

lemma split_at_dash:
  assumes "a @ 45 # x = b @ 45 # y" "45 \<notin> set a" "45 \<notin> set b"
  shows "a = b \<and> x = y"
  using assms
proof (induction a arbitrary: b)
  case Nil
  then show ?case by (cases b) auto
next
  case (Cons c a)
  then show ?case by (cases b) auto
qed


lemma filename_inj:
  "filename f = filename g \<longleftrightarrow> in_now f = in_now g \<and> in_originalname f = in_originalname g"
proof
  assume eq: "filename f = filename g"
  have "45 \<notin> set (digits (in_now f))" "45 \<notin> set (digits (in_now g))"
    using digits_range [of 45] by auto
  moreover from eq
  have "digits (in_now f) @ 45 # in_originalname f = digits (in_now g) @ 45 # in_originalname g"
    by (simp add: filename_def lit_def)
  ultimately have "digits (in_now f) = digits (in_now g) \<and> in_originalname f = in_originalname g"
    using split_at_dash by blast
  then show "in_now f = in_now g \<and> in_originalname f = in_originalname g"
    by (auto dest: digits_inj)
next
  assume "in_now f = in_now g \<and> in_originalname f = in_originalname g"
  then show "filename f = filename g" by (simp add: filename_def)
qed

section \<open>Stored paths\<close>

text \<open>
  Two stored files get the same path exactly when they have the same original name and
  the storage named them at the same reading of the millisecond clock.
\<close>

lemma stored_path_eq_iff:
  "path (store_file f) = path (store_file g) \<longleftrightarrow>
     in_now f = in_now g \<and> in_originalname f = in_originalname g"
  by (simp add: store_file_def stored_path_def filename_inj)

text \<open>
  C7, at two files of one request with the same original name, named at the same reading
  of the millisecond clock: both are accepted and stored under one path, so the store
  holds one file for the two uploads.
\<close>

theorem stored_path_collision:
  "upload_any
     [\<lparr>in_fieldname = lit ''tddIrdFiles'', in_originalname = lit ''spec.pdf'',
       in_mimetype = lit ''application/pdf'', in_now = 1700000000000\<rparr>,
      \<lparr>in_fieldname = lit ''files'', in_originalname = lit ''spec.pdf'',
       in_mimetype = lit ''application/pdf'', in_now = 1700000000000\<rparr>]
     [] None \<lparr>store = {}, deleted = [], sent = []\<rparr>
   = Inr ([\<lparr>fieldname = lit ''tddIrdFiles'', originalname = lit ''spec.pdf'',
            mimetype = lit ''application/pdf'', path = lit ''uploads/1700000000000-spec.pdf''\<rparr>,
           \<lparr>fieldname = lit ''files'', originalname = lit ''spec.pdf'',
            mimetype = lit ''application/pdf'', path = lit ''uploads/1700000000000-spec.pdf''\<rparr>],
          \<lparr>store = {lit ''uploads/1700000000000-spec.pdf''}, deleted = [], sent = []\<rparr>)"
proof -
  have d: "digits 1700000000000 = lit ''1700000000000''"
    by (simp add: digits.simps lit_def)
  have p: "uploadDir @ lit ''1700000000000'' @ lit ''-'' @ lit ''spec.pdf''
             = lit ''uploads/1700000000000-spec.pdf''"
    by (simp add: uploadDir_def lit_append [symmetric])
  show ?thesis
    by (simp add: fileFilter_def allowedFields_def store_file_def stored_path_def filename_def d p)
qed

section \<open>The assembled payload\<close>

lemma category_parts_eq:
  "category_parts name l = map part_of (filter (\<lambda>file. fieldname file = name) l)"
  by (auto simp: category_parts_def Let_def file_part_def part_of_def)

lemma formData_by_category:
  "formData b (Some l) = TextPart (lit ''data'') (pageData b (Some l)) # map part_of (by_category l)"
  by (cases l) (simp_all add: formData_def category_parts_eq by_category_def)

lemma mset_by_category: "accepted l \<Longrightarrow> mset (by_category l) = mset l"
  by (induction l) (auto simp: accepted_def by_category_def allowedFields_def)

lemma sorted_map_const: "(\<And>x. x \<in> set xs \<Longrightarrow> f x = (k::nat)) \<Longrightarrow> sorted (map f xs)"
  by (induction xs) auto

lemma sorted_by_category: "sorted (map category_index (by_category l))"
proof -
  have "sorted (map category_index (filter (\<lambda>file. fieldname file = name) l))" for name
    by (rule sorted_map_const [where k = "category_index \<lparr>fieldname = name, originalname = [], mimetype = [], path = []\<rparr>"])
       (simp add: category_index_def)
  then show ?thesis
    by (auto simp: by_category_def sorted_append category_index_def)
qed

lemma filter_by_category:
  "accepted l \<Longrightarrow>
   filter (\<lambda>file. fieldname file = name) (by_category l) = filter (\<lambda>file. fieldname file = name) l"
  by (induction l) (auto simp: accepted_def by_category_def allowedFields_def)

lemma pageData_explicit:
  "pageData b fs =
     JObj [(lit ''apiType'', field_val (b (lit ''apiType''))),
           (lit ''fetchPropertyFile'', field_val (b (lit ''fetchPropertyFile''))),
           (lit ''selectedGitOrg'', field_val (b (lit ''selectedGitOrg''))),
           (lit ''wikiSpaceKey'', field_val (b (lit ''wikiSpaceKey''))),
           (lit ''pageToBeCreatedTitle'', field_val (b (lit ''pageToBeCreatedTitle''))),
           (lit ''pageToBeCreatedParentPageTitle'',
            field_val (b (lit ''pageToBeCreatedParentPageTitle''))),
           (lit ''appName'', field_val (b (lit ''appName''))),
           (lit ''l0ProductionSupport'', field_val (b (lit ''l0ProductionSupport''))),
           (lit ''l0ProductionSupportEmail'', field_val (b (lit ''l0ProductionSupportEmail''))),
           (lit ''l2MulesoftSupport'', field_val (b (lit ''l2MulesoftSupport''))),
           (lit ''l2MulesoftSupportEmail'', field_val (b (lit ''l2MulesoftSupportEmail''))),
           (lit ''integrationDevTeam'', field_val (b (lit ''integrationDevTeam''))),
           (lit ''integrationDevTeamEmail'', field_val (b (lit ''integrationDevTeamEmail''))),
           (lit ''businessTeam'', field_val (b (lit ''businessTeam''))),
           (lit ''businessTeamEmail'', field_val (b (lit ''businessTeamEmail''))),
           (lit ''hasFiles'', hasFiles fs)]"
  by (simp add: pageData_def metadataFields_def)

text \<open>
  C4. For accepted files \<open>l\<close> and any metadata \<open>b\<close>, the payload is the JSON metadata part,
  which holds the fifteen metadata fields as the body gives them and the computed
  \<^verbatim>\<open>hasFiles\<close>, followed by one part per file, where the files stand in a sequence \<open>g\<close> that
  holds every accepted file exactly once (\<open>mset g = mset l\<close>), runs through the categories
  in the fixed order, and keeps within each field name the arrival order of \<open>l\<close>; each
  file part is \<open>part_of\<close> its file, so it carries the file's original name and MIME type.
  The payload is a function of the metadata and the files, so assembling twice gives the
  same parts.
\<close>

theorem formData_grouped:
  assumes "accepted l"
  shows "\<exists>g. formData b (Some l) =
               TextPart (lit ''data'')
                 (JObj [(lit ''apiType'', field_val (b (lit ''apiType''))),
                        (lit ''fetchPropertyFile'', field_val (b (lit ''fetchPropertyFile''))),
                        (lit ''selectedGitOrg'', field_val (b (lit ''selectedGitOrg''))),
                        (lit ''wikiSpaceKey'', field_val (b (lit ''wikiSpaceKey''))),
                        (lit ''pageToBeCreatedTitle'', field_val (b (lit ''pageToBeCreatedTitle''))),
                        (lit ''pageToBeCreatedParentPageTitle'',
                         field_val (b (lit ''pageToBeCreatedParentPageTitle''))),
                        (lit ''appName'', field_val (b (lit ''appName''))),
                        (lit ''l0ProductionSupport'', field_val (b (lit ''l0ProductionSupport''))),
                        (lit ''l0ProductionSupportEmail'',
                         field_val (b (lit ''l0ProductionSupportEmail''))),
                        (lit ''l2MulesoftSupport'', field_val (b (lit ''l2MulesoftSupport''))),
                        (lit ''l2MulesoftSupportEmail'',
                         field_val (b (lit ''l2MulesoftSupportEmail''))),
                        (lit ''integrationDevTeam'', field_val (b (lit ''integrationDevTeam''))),
                        (lit ''integrationDevTeamEmail'',
                         field_val (b (lit ''integrationDevTeamEmail''))),
                        (lit ''businessTeam'', field_val (b (lit ''businessTeam''))),
                        (lit ''businessTeamEmail'', field_val (b (lit ''businessTeamEmail''))),
                        (lit ''hasFiles'', JBool (l \<noteq> []))]) #
               map part_of g \<and>
             mset g = mset l \<and>
             sorted (map category_index g) \<and>
             (\<forall>name. filter (\<lambda>file. fieldname file = name) g = filter (\<lambda>file. fieldname file = name) l)"
proof (intro exI [of _ "by_category l"] conjI allI)
  have "hasFiles (Some l) = JBool (l \<noteq> [])"
    by (simp add: hasFiles_def)
  with formData_by_category [of b l]
  show "formData b (Some l) =
               TextPart (lit ''data'')
                 (JObj [(lit ''apiType'', field_val (b (lit ''apiType''))),
                        (lit ''fetchPropertyFile'', field_val (b (lit ''fetchPropertyFile''))),
                        (lit ''selectedGitOrg'', field_val (b (lit ''selectedGitOrg''))),
                        (lit ''wikiSpaceKey'', field_val (b (lit ''wikiSpaceKey''))),
                        (lit ''pageToBeCreatedTitle'', field_val (b (lit ''pageToBeCreatedTitle''))),
                        (lit ''pageToBeCreatedParentPageTitle'',
                         field_val (b (lit ''pageToBeCreatedParentPageTitle''))),
                        (lit ''appName'', field_val (b (lit ''appName''))),
                        (lit ''l0ProductionSupport'', field_val (b (lit ''l0ProductionSupport''))),
                        (lit ''l0ProductionSupportEmail'',
                         field_val (b (lit ''l0ProductionSupportEmail''))),
                        (lit ''l2MulesoftSupport'', field_val (b (lit ''l2MulesoftSupport''))),
                        (lit ''l2MulesoftSupportEmail'',
                         field_val (b (lit ''l2MulesoftSupportEmail''))),
                        (lit ''integrationDevTeam'', field_val (b (lit ''integrationDevTeam''))),
                        (lit ''integrationDevTeamEmail'',
                         field_val (b (lit ''integrationDevTeamEmail''))),
                        (lit ''businessTeam'', field_val (b (lit ''businessTeam''))),
                        (lit ''businessTeamEmail'', field_val (b (lit ''businessTeamEmail''))),
                        (lit ''hasFiles'', JBool (l \<noteq> []))]) #
               map part_of (by_category l)"
    by (simp add: pageData_explicit)
  from assms show "mset (by_category l) = mset l"
    by (rule mset_by_category)
  show "sorted (map category_index (by_category l))"
    by (rule sorted_by_category)
  from assms
  show "filter (\<lambda>file. fieldname file = name) (by_category l) =
        filter (\<lambda>file. fieldname file = name) l" for name
    by (rule filter_by_category)
qed

text \<open>
  Three files arriving as general, primary, general, with a body of four fields.
\<close>

theorem formData_grouped_witness:
  "let l = [\<lparr>fieldname = lit ''files'', originalname = lit ''notes.txt'',
              mimetype = lit ''text/plain'', path = lit ''uploads/1-notes.txt''\<rparr>,
            \<lparr>fieldname = lit ''tddIrdFiles'', originalname = lit ''design.docx'',
              mimetype = lit ''application/msword'', path = lit ''uploads/2-design.docx''\<rparr>,
            \<lparr>fieldname = lit ''files'', originalname = lit ''more.txt'',
              mimetype = lit ''text/plain'', path = lit ''uploads/3-more.txt''\<rparr>];
       b = [lit ''apiType'' \<mapsto> JStr (lit ''REST''),
            lit ''pageToBeCreatedTitle'' \<mapsto> JStr (lit ''Service X''),
            lit ''wikiSpaceKey'' \<mapsto> JStr (lit ''ENG''),
            lit ''hasFiles'' \<mapsto> JStr (lit ''false'')]
   in accepted l \<and>
      formData b (Some l) =
        [TextPart (lit ''data'')
           (JObj [(lit ''apiType'', JStr (lit ''REST'')),
                  (lit ''fetchPropertyFile'', JUndefined),
                  (lit ''selectedGitOrg'', JUndefined),
                  (lit ''wikiSpaceKey'', JStr (lit ''ENG'')),
                  (lit ''pageToBeCreatedTitle'', JStr (lit ''Service X'')),
                  (lit ''pageToBeCreatedParentPageTitle'', JUndefined),
                  (lit ''appName'', JUndefined),
                  (lit ''l0ProductionSupport'', JUndefined),
                  (lit ''l0ProductionSupportEmail'', JUndefined),
                  (lit ''l2MulesoftSupport'', JUndefined),
                  (lit ''l2MulesoftSupportEmail'', JUndefined),
                  (lit ''integrationDevTeam'', JUndefined),
                  (lit ''integrationDevTeamEmail'', JUndefined),
                  (lit ''businessTeam'', JUndefined),
                  (lit ''businessTeamEmail'', JUndefined),
                  (lit ''hasFiles'', JBool True)]),
         FilePart (lit ''tddIrdFiles'') (lit ''uploads/2-design.docx'') (lit ''design.docx'')
           (lit ''application/msword''),
         FilePart (lit ''files'') (lit ''uploads/1-notes.txt'') (lit ''notes.txt'') (lit ''text/plain''),
         FilePart (lit ''files'') (lit ''uploads/3-more.txt'') (lit ''more.txt'') (lit ''text/plain'')]"
proof -
  define l where "l =
           [\<lparr>fieldname = lit ''files'', originalname = lit ''notes.txt'',
              mimetype = lit ''text/plain'', path = lit ''uploads/1-notes.txt''\<rparr>,
            \<lparr>fieldname = lit ''tddIrdFiles'', originalname = lit ''design.docx'',
              mimetype = lit ''application/msword'', path = lit ''uploads/2-design.docx''\<rparr>,
            \<lparr>fieldname = lit ''files'', originalname = lit ''more.txt'',
              mimetype = lit ''text/plain'', path = lit ''uploads/3-more.txt''\<rparr>]"
  define b where "b = [lit ''apiType'' \<mapsto> JStr (lit ''REST''),
            lit ''pageToBeCreatedTitle'' \<mapsto> JStr (lit ''Service X''),
            lit ''wikiSpaceKey'' \<mapsto> JStr (lit ''ENG''),
            lit ''hasFiles'' \<mapsto> JStr (lit ''false'')]"
  have acc: "accepted l"
    by (simp add: l_def accepted_def allowedFields_def)
  from formData_grouped [OF acc, of b] obtain g where
    fd: "formData b (Some l) =
           TextPart (lit ''data'')
                 (JObj [(lit ''apiType'', field_val (b (lit ''apiType''))),
                        (lit ''fetchPropertyFile'', field_val (b (lit ''fetchPropertyFile''))),
                        (lit ''selectedGitOrg'', field_val (b (lit ''selectedGitOrg''))),
                        (lit ''wikiSpaceKey'', field_val (b (lit ''wikiSpaceKey''))),
                        (lit ''pageToBeCreatedTitle'', field_val (b (lit ''pageToBeCreatedTitle''))),
                        (lit ''pageToBeCreatedParentPageTitle'',
                         field_val (b (lit ''pageToBeCreatedParentPageTitle''))),
                        (lit ''appName'', field_val (b (lit ''appName''))),
                        (lit ''l0ProductionSupport'', field_val (b (lit ''l0ProductionSupport''))),
                        (lit ''l0ProductionSupportEmail'',
                         field_val (b (lit ''l0ProductionSupportEmail''))),
                        (lit ''l2MulesoftSupport'', field_val (b (lit ''l2MulesoftSupport''))),
                        (lit ''l2MulesoftSupportEmail'',
                         field_val (b (lit ''l2MulesoftSupportEmail''))),
                        (lit ''integrationDevTeam'', field_val (b (lit ''integrationDevTeam''))),
                        (lit ''integrationDevTeamEmail'',
                         field_val (b (lit ''integrationDevTeamEmail''))),
                        (lit ''businessTeam'', field_val (b (lit ''businessTeam''))),
                        (lit ''businessTeamEmail'', field_val (b (lit ''businessTeamEmail''))),
                        (lit ''hasFiles'', JBool (l \<noteq> []))]) #
               map part_of g"
    and tdd: "filter (\<lambda>file. fieldname file = lit ''tddIrdFiles'') g =
              filter (\<lambda>file. fieldname file = lit ''tddIrdFiles'') l"
    and gen: "filter (\<lambda>file. fieldname file = lit ''files'') g =
              filter (\<lambda>file. fieldname file = lit ''files'') l"
    and ms: "mset g = mset l"
    and so: "sorted (map category_index g)"
    by blast
  have parts: "tl (formData b (Some l)) =
        [FilePart (lit ''tddIrdFiles'') (lit ''uploads/2-design.docx'') (lit ''design.docx'')
           (lit ''application/msword''),
         FilePart (lit ''files'') (lit ''uploads/1-notes.txt'') (lit ''notes.txt'') (lit ''text/plain''),
         FilePart (lit ''files'') (lit ''uploads/3-more.txt'') (lit ''more.txt'') (lit ''text/plain'')]"
    by (simp add: l_def formData_def category_parts_def file_part_def)
  from fd have "formData b (Some l) = hd (formData b (Some l)) # tl (formData b (Some l))"
    by simp
  with fd parts acc show ?thesis
    unfolding Let_def l_def [symmetric] b_def [symmetric]
    by (simp add: b_def field_val_def l_def)
qed

text \<open>
  C8. The \<^verbatim>\<open>hasFiles\<close> property of the JSON metadata part is \<^verbatim>\<open>true\<close> exactly when the request
  has at least one accepted file, and whatever the client sends (or does not send) as the
  field \<^verbatim>\<open>hasFiles\<close> leaves the whole payload unchanged.
\<close>

theorem hasFiles_computed:
  "(opt_prop (metadata_of (formData b fs)) (lit ''hasFiles'') = JBool True \<longleftrightarrow>
      (case fs of None \<Rightarrow> 0 | Some l \<Rightarrow> length l) > 0) \<and>
   formData (b(lit ''hasFiles'' := v)) fs = formData b fs"
proof -
  have "opt_prop (pageData b fs) (lit ''hasFiles'') = hasFiles fs"
    by (simp add: pageData_def metadataFields_def)
  moreover have "pageData (b(lit ''hasFiles'' := v)) fs = pageData b fs"
    by (simp add: pageData_def metadataFields_def)
  ultimately show ?thesis
    by (simp add: formData_def metadata_of_def hasFiles_def split: option.splits)
qed

section \<open>Intake\<close>

lemma fold_try_unlink_store: "store (fold try_unlink l w) = store w - path ` set l"
  by (induction l arbitrary: w) (auto simp: try_unlink_def unlinkSync_def)

lemma fold_try_unlink_sent: "sent (fold try_unlink l w) = sent w"
  by (induction l arbitrary: w) (auto simp: try_unlink_def unlinkSync_def)

lemma first_error_Nil: "first_error failed [] = failed"
  by (simp add: first_error_def split: option.splits)

lemma first_error_skip:
  "\<not> rejected p \<Longrightarrow> first_error failed (p # rest) = first_error failed rest"
  by (simp add: first_error_def split: option.splits)

lemma first_error_rejected:
  "rejected p \<Longrightarrow>
   first_error failed (p # rest) =
     first_error
       (case failed of
          None \<Rightarrow> Some (new_Error (lit ''Unexpected field: '' @ in_fieldname p))
        | Some first \<Rightarrow> Some first)
       rest"
  by (simp add: first_error_def split: option.splits)

lemma upload_any_result:
  "upload_any parts acc failed w =
     (case first_error failed parts of
        Some err \<Rightarrow>
          Inl (err,
               removeUploadedFiles (acc @ map store_file (filter stored parts))
                 (w\<lparr>store := store w \<union> stored_path ` set (filter stored parts)\<rparr>))
      | None \<Rightarrow>
          Inr (acc @ map store_file (filter stored parts),
               w\<lparr>store := store w \<union> stored_path ` set (filter stored parts)\<rparr>))"
proof (induction parts arbitrary: acc failed w)
  case Nil
  then show ?case by (simp add: first_error_Nil split: option.splits)
next
  case (Cons p rest)
  show ?case
  proof (cases "in_originalname p = []")
    case True
    then have "\<not> rejected p" "\<not> stored p"
      by (simp_all add: rejected_def stored_def)
    with True show ?thesis
      by (simp add: Cons.IH first_error_skip split: option.splits)
  next
    case named: False
    show ?thesis
    proof (cases "allowed p")
      case True
      with named have "\<not> rejected p" "stored p"
        by (simp_all add: rejected_def stored_def)
      with named True show ?thesis
        by (simp add: Cons.IH first_error_skip fileFilter_def allowed_def split: option.splits)
    next
      case False
      with named have "rejected p" "\<not> stored p"
        by (simp_all add: rejected_def stored_def)
      with named False show ?thesis
        by (simp add: Cons.IH first_error_rejected fileFilter_def allowed_def split: option.splits)
    qed
  qed
qed

lemma upload_any_passes:
  "find rejected parts = None \<Longrightarrow>
   upload_any parts [] None w =
     Inr (map store_file (filter stored parts),
          w\<lparr>store := store w \<union> stored_path ` set (filter stored parts)\<rparr>)"
  by (simp add: upload_any_result first_error_def)

text \<open>
  A part without a file name is dropped before the filter, whatever its field name.
\<close>

lemma unnamed_part_is_skipped:
  "upload_any
     [\<lparr>in_fieldname = lit ''randomField'', in_originalname = [],
       in_mimetype = lit ''application/octet-stream'', in_now = 1000\<rparr>]
     [] None \<lparr>store = {}, deleted = [], sent = []\<rparr>
   = Inr ([], \<lparr>store = {}, deleted = [], sent = []\<rparr>)"
  by simp

text \<open>
  C3 (as amended). When a file part of a multipart request carries a file name and a field
  name off the allow-list, the request fails with the error of the first such part \<open>bad\<close>,
  whose message names that field; the route handler does not run, so nothing is posted
  upstream; and every file stored for the request is removed again. The error goes to the
  default error handler of the framework, which answers 500.
\<close>

theorem disallowed_field_rejected:
  assumes "find rejected parts = Some bad"
  shows "fst (generate_confluence eng upstream (Multipart ct text_fields parts) w) =
           ErrorPage 500 (new_Error (lit ''Unexpected field: '' @ in_fieldname bad)) \<and>
         sent (snd (generate_confluence eng upstream (Multipart ct text_fields parts) w)) = sent w \<and>
         store (snd (generate_confluence eng upstream (Multipart ct text_fields parts) w)) =
           store w - stored_path ` set (filter stored parts)"
proof -
  from assms
  have "first_error None parts = Some (new_Error (lit ''Unexpected field: '' @ in_fieldname bad))"
    by (simp add: first_error_def)
  moreover have "path ` store_file ` S = stored_path ` S" for S
    by (simp add: image_image store_file_def)
  ultimately show ?thesis
    by (simp add: generate_confluence_def upload_any_result default_error_handler_def
        removeUploadedFiles_def fold_try_unlink_sent fold_try_unlink_store Un_Diff)
qed

text \<open>
  An accepted file, a part without a file name under another field, a file under
  \<^verbatim>\<open>randomField\<close>, then another accepted file.
\<close>

theorem disallowed_field_rejected_witness:
  "let parts = [\<lparr>in_fieldname = lit ''tddIrdFiles'', in_originalname = lit ''design.docx'',
                  in_mimetype = lit ''application/msword'', in_now = 1000\<rparr>,
                \<lparr>in_fieldname = lit ''otherField'', in_originalname = [],
                  in_mimetype = lit ''application/octet-stream'', in_now = 1001\<rparr>,
                \<lparr>in_fieldname = lit ''randomField'', in_originalname = lit ''x.bin'',
                  in_mimetype = lit ''application/octet-stream'', in_now = 1001\<rparr>,
                \<lparr>in_fieldname = lit ''files'', in_originalname = lit ''notes.txt'',
                  in_mimetype = lit ''text/plain'', in_now = 1002\<rparr>];
       result = generate_confluence example_engine (\<lambda>form. Resolved 200 JNull)
                  (Multipart (JStr (lit ''multipart/form-data''))
                     [lit ''pageToBeCreatedTitle'' \<mapsto> JStr (lit ''Service X''),
                      lit ''wikiSpaceKey'' \<mapsto> JStr (lit ''ENG'')]
                     parts)
                  \<lparr>store = {}, deleted = [], sent = []\<rparr>
   in fst result = ErrorPage 500 (new_Error (lit ''Unexpected field: randomField'')) \<and>
      sent (snd result) = [] \<and> store (snd result) = {}"
proof -
  define bad where "bad = \<lparr>in_fieldname = lit ''randomField'', in_originalname = lit ''x.bin'',
                  in_mimetype = lit ''application/octet-stream'', in_now = 1001\<rparr>"
  define parts where "parts = [\<lparr>in_fieldname = lit ''tddIrdFiles'', in_originalname = lit ''design.docx'',
                  in_mimetype = lit ''application/msword'', in_now = 1000\<rparr>,
                \<lparr>in_fieldname = lit ''otherField'', in_originalname = [],
                  in_mimetype = lit ''application/octet-stream'', in_now = 1001\<rparr>,
                bad,
                \<lparr>in_fieldname = lit ''files'', in_originalname = lit ''notes.txt'',
                  in_mimetype = lit ''text/plain'', in_now = 1002\<rparr>]"
  have f: "find rejected parts = Some bad"
    by (simp add: parts_def bad_def rejected_def allowed_def allowedFields_def)
  have m: "lit ''Unexpected field: '' @ in_fieldname bad = lit ''Unexpected field: randomField''"
    by (simp add: bad_def lit_append [symmetric])
  from disallowed_field_rejected [OF f, where upstream = "\<lambda>form. Resolved 200 JNull"
      and eng = example_engine
      and ct = "JStr (lit ''multipart/form-data'')"
      and text_fields = "[lit ''pageToBeCreatedTitle'' \<mapsto> JStr (lit ''Service X''),
                      lit ''wikiSpaceKey'' \<mapsto> JStr (lit ''ENG'')]"
      and w = "\<lparr>store = {}, deleted = [], sent = []\<rparr>"]
  show ?thesis
    unfolding Let_def m by (simp add: parts_def bad_def)
qed

text \<open>
  C3 fails as stated: in Scenario D the client does not get a 400; the error reaches the
  default error handler, which answers 500.
\<close>

theorem disallowed_field_counterexample:
  "generate_confluence example_engine (\<lambda>form. Resolved 200 JNull)
     (Multipart (JStr (lit ''multipart/form-data''))
        [lit ''pageToBeCreatedTitle'' \<mapsto> JStr (lit ''Service X''),
         lit ''wikiSpaceKey'' \<mapsto> JStr (lit ''ENG'')]
        [\<lparr>in_fieldname = lit ''randomField'', in_originalname = lit ''x.bin'',
          in_mimetype = lit ''application/octet-stream'', in_now = 1000\<rparr>])
     \<lparr>store = {}, deleted = [], sent = []\<rparr>
   = (ErrorPage 500 (new_Error (lit ''Unexpected field: randomField'')),
      \<lparr>store = {}, deleted = [], sent = []\<rparr>) \<and>
   status (ErrorPage 500 (new_Error (lit ''Unexpected field: randomField''))) \<noteq> 400"
  by (simp add: generate_confluence_def fileFilter_def allowedFields_def default_error_handler_def
      removeUploadedFiles_def lit_append [symmetric])

section \<open>Validation\<close>

lemma handler_invalid:
  assumes "body req = Some b"
    and "\<not> truthy (field_val (b (lit ''pageToBeCreatedTitle''))) \<or>
         \<not> truthy (field_val (b (lit ''wikiSpaceKey'')))"
  shows "handler eng upstream req w =
     (JsonResponse 400
        (JObj [(lit ''status'', JStr (lit ''error'')),
               (lit ''message'',
                JStr (lit (if \<not> truthy (field_val (b (lit ''pageToBeCreatedTitle'')))
                           then ''pageToBeCreatedTitle is required''
                           else ''wikiSpaceKey is required'')))]),
      w)"
  using assms by (auto simp: handler_def Let_def required_def)

text \<open>
  A field that is missing or empty is falsy; so are \<^verbatim>\<open>null\<close>, \<^verbatim>\<open>false\<close> and \<^verbatim>\<open>0\<close> in a JSON body.
\<close>

lemma missing_or_empty_falsy: "missing_or_empty v \<Longrightarrow> \<not> truthy v"
  by (auto simp: missing_or_empty_def)

text \<open>
  C2 (as amended). For a request whose file parts all pass the upload filter, so that the
  handler runs, and whose page title or space key is falsy (missing or empty, in
  particular): the handler posts nothing upstream and answers 400. When the request has
  a parsed body, the response body is exactly \<^verbatim>\<open>{status: "error", message}\<close> with the
  message naming the title when the title is falsy, and the space key otherwise. When it
  has none, the response body is the message about the body with the \<^verbatim>\<open>debug\<close> object.
\<close>

theorem validation_rejects:
  assumes "filter_passes hreq"
    and "\<not> truthy (request_field hreq (lit ''pageToBeCreatedTitle'')) \<or>
         \<not> truthy (request_field hreq (lit ''wikiSpaceKey''))"
  shows "fst (generate_confluence eng upstream hreq w) =
           (case parsed_body hreq of
              None \<Rightarrow>
                JsonResponse 400
                  (JObj [(lit ''status'', JStr (lit ''error'')),
                         (lit ''message'', JStr (lit
                            ''Request body is missing or malformed. Make sure you're sending form data correctly.'')),
                         (lit ''debug'',
                          JObj [(lit ''bodyType'', JStr (lit ''undefined'')),
                                (lit ''bodyValue'', JUndefined),
                                (lit ''contentType'', header hreq),
                                (lit ''filesReceived'', JNum 0),
                                (lit ''expectedContentType'', JStr (lit ''multipart/form-data''))])])
            | Some b \<Rightarrow>
                JsonResponse 400
                  (JObj [(lit ''status'', JStr (lit ''error'')),
                         (lit ''message'',
                          JStr (lit (if \<not> truthy (request_field hreq (lit ''pageToBeCreatedTitle''))
                                     then ''pageToBeCreatedTitle is required''
                                     else ''wikiSpaceKey is required'')))])) \<and>
         sent (snd (generate_confluence eng upstream hreq w)) = sent w"
proof (cases hreq)
  case (Multipart ct b parts)
  with assms(1) have pass: "find rejected parts = None"
    by (simp add: filter_passes_def)
  from assms(2) Multipart
  have f: "\<not> truthy (field_val (b (lit ''pageToBeCreatedTitle''))) \<or>
           \<not> truthy (field_val (b (lit ''wikiSpaceKey'')))"
    by (simp add: request_field_def)
  have "handler eng upstream \<lparr>body = Some b, files = fs, content_type = ct\<rparr> w' =
     (JsonResponse 400
        (JObj [(lit ''status'', JStr (lit ''error'')),
               (lit ''message'',
                JStr (lit (if \<not> truthy (field_val (b (lit ''pageToBeCreatedTitle'')))
                           then ''pageToBeCreatedTitle is required''
                           else ''wikiSpaceKey is required'')))]),
      w')" for fs w'
    by (rule handler_invalid [OF _ f]) simp
  with Multipart show ?thesis
    by (simp add: generate_confluence_def upload_any_passes [OF pass] request_field_def)
next
  case (NotMultipart ct bo)
  show ?thesis
  proof (cases bo)
    case None
    with NotMultipart show ?thesis
      by (simp add: generate_confluence_def handler_def malformed_body_def)
  next
    case (Some b)
    from assms(2) NotMultipart Some
    have f: "\<not> truthy (field_val (b (lit ''pageToBeCreatedTitle''))) \<or>
             \<not> truthy (field_val (b (lit ''wikiSpaceKey'')))"
      by (simp add: request_field_def)
    have "handler eng upstream \<lparr>body = Some b, files = None, content_type = ct\<rparr> w =
       (JsonResponse 400
          (JObj [(lit ''status'', JStr (lit ''error'')),
                 (lit ''message'',
                  JStr (lit (if \<not> truthy (field_val (b (lit ''pageToBeCreatedTitle'')))
                             then ''pageToBeCreatedTitle is required''
                             else ''wikiSpaceKey is required'')))]),
        w)"
      by (rule handler_invalid [OF _ f]) simp
    with NotMultipart Some show ?thesis
      by (simp add: generate_confluence_def request_field_def)
  qed
qed

text \<open>
  Scenario B: one file under \<^verbatim>\<open>tddIrdFiles\<close>, a title, no space key.
\<close>

theorem validation_rejects_witness:
  "let hreq = Multipart (JStr (lit ''multipart/form-data''))
                [lit ''pageToBeCreatedTitle'' \<mapsto> JStr (lit ''Service X'')]
                [\<lparr>in_fieldname = lit ''tddIrdFiles'', in_originalname = lit ''design.docx'',
                  in_mimetype = lit ''application/msword'', in_now = 1000\<rparr>];
       result = generate_confluence example_engine (\<lambda>form. Resolved 200 JNull) hreq
                  \<lparr>store = {}, deleted = [], sent = []\<rparr>
   in filter_passes hreq \<and>
      missing_or_empty (request_field hreq (lit ''wikiSpaceKey'')) \<and>
      fst result = JsonResponse 400
                     (JObj [(lit ''status'', JStr (lit ''error'')),
                            (lit ''message'', JStr (lit ''wikiSpaceKey is required''))]) \<and>
      sent (snd result) = []"
proof -
  define hreq where "hreq = Multipart (JStr (lit ''multipart/form-data''))
                [lit ''pageToBeCreatedTitle'' \<mapsto> JStr (lit ''Service X'')]
                [\<lparr>in_fieldname = lit ''tddIrdFiles'', in_originalname = lit ''design.docx'',
                  in_mimetype = lit ''application/msword'', in_now = 1000\<rparr>]"
  have p: "filter_passes hreq"
    by (simp add: hreq_def filter_passes_def rejected_def allowed_def allowedFields_def)
  have k: "request_field hreq (lit ''wikiSpaceKey'') = JUndefined"
    and t: "request_field hreq (lit ''pageToBeCreatedTitle'') = JStr (lit ''Service X'')"
    by (simp_all add: hreq_def request_field_def field_val_def)
  from k have f: "\<not> truthy (request_field hreq (lit ''pageToBeCreatedTitle'')) \<or>
                  \<not> truthy (request_field hreq (lit ''wikiSpaceKey''))"
    by simp
  have b: "parsed_body hreq = Some [lit ''pageToBeCreatedTitle'' \<mapsto> JStr (lit ''Service X'')]"
    by (simp add: hreq_def)
  from validation_rejects [OF p f, of example_engine "\<lambda>form. Resolved 200 JNull"
      "\<lparr>store = {}, deleted = [], sent = []\<rparr>"] p k
  show ?thesis
    unfolding Let_def hreq_def [symmetric] by (simp add: b t missing_or_empty_def)
qed

text \<open>
  C2 fails as stated: a request without a parsed body has no page title, and the
  handler's first guard answers it with a message about the body (and a \<^verbatim>\<open>debug\<close> object)
  that names neither field.
\<close>

theorem missing_body_counterexample:
  "fst (generate_confluence example_engine (\<lambda>form. Resolved 200 JNull)
          (NotMultipart JUndefined None) \<lparr>store = {}, deleted = [], sent = []\<rparr>)
   = JsonResponse 400
       (JObj [(lit ''status'', JStr (lit ''error'')),
              (lit ''message'', JStr (lit
                 ''Request body is missing or malformed. Make sure you're sending form data correctly.'')),
              (lit ''debug'',
               JObj [(lit ''bodyType'', JStr (lit ''undefined'')),
                     (lit ''bodyValue'', JUndefined),
                     (lit ''contentType'', JUndefined),
                     (lit ''filesReceived'', JNum 0),
                     (lit ''expectedContentType'', JStr (lit ''multipart/form-data''))])]) \<and>
   missing_or_empty (request_field (NotMultipart JUndefined None) (lit ''pageToBeCreatedTitle'')) \<and>
   opt_prop (json_body (fst (generate_confluence example_engine (\<lambda>form. Resolved 200 JNull)
          (NotMultipart JUndefined None) \<lparr>store = {}, deleted = [], sent = []\<rparr>))) (lit ''message'')
     \<noteq> JStr (lit ''pageToBeCreatedTitle is required'') \<and>
   opt_prop (json_body (fst (generate_confluence example_engine (\<lambda>form. Resolved 200 JNull)
          (NotMultipart JUndefined None) \<lparr>store = {}, deleted = [], sent = []\<rparr>))) (lit ''message'')
     \<noteq> JStr (lit ''wikiSpaceKey is required'')"
  by (simp add: generate_confluence_def handler_def malformed_body_def missing_or_empty_def
      request_field_def)

section \<open>After validation: the upstream call and the response\<close>

lemma handler_valid:
  assumes "body req = Some b"
    and "truthy (field_val (b (lit ''pageToBeCreatedTitle'')))"
    and "truthy (field_val (b (lit ''wikiSpaceKey'')))"
  shows "handler eng upstream req w =
     (case upstream (formData b (files req)) of
        Resolved st data \<Rightarrow>
          (case pageUrl eng data (field_val (b (lit ''wikiSpaceKey'')))
                  (field_val (b (lit ''pageToBeCreatedTitle''))) of
             Inr url \<Rightarrow>
               (JsonResponse 200
                  (JObj [(lit ''message'', JStr (lit ''Confluence page generated successfully'')),
                         (lit ''pageUrl'', url)]),
                cleanup (files req) (w\<lparr>sent := sent w @ [formData b (files req)]\<rparr>))
           | Inl error \<Rightarrow>
               (error_response error,
                cleanup (files req) (w\<lparr>sent := sent w @ [formData b (files req)]\<rparr>)))
      | Rejected error \<Rightarrow>
          (error_response error,
           cleanup (files req) (w\<lparr>sent := sent w @ [formData b (files req)]\<rparr>)))"
  using assms by (simp add: handler_def Let_def split: axios_outcome.splits sum.splits)

text \<open>
  The fields of the scenarios: a title and a space key.
\<close>

lemma body_lookup:
  "field_val ([lit ''pageToBeCreatedTitle'' \<mapsto> JStr (lit ''Service X''),
               lit ''wikiSpaceKey'' \<mapsto> JStr (lit ''ENG'')] (lit ''pageToBeCreatedTitle''))
     = JStr (lit ''Service X'')"
  "field_val ([lit ''pageToBeCreatedTitle'' \<mapsto> JStr (lit ''Service X''),
               lit ''wikiSpaceKey'' \<mapsto> JStr (lit ''ENG'')] (lit ''wikiSpaceKey''))
     = JStr (lit ''ENG'')"
  by (simp_all add: field_val_def)

lemma pageUrl_found:
  "find truthy (map (opt_prop data) urlFields) = Some u \<Longrightarrow> pageUrl eng data k t = Inr u"
  by (auto simp: pageUrl_def js_or_def urlFields_def Let_def split: if_splits)

lemma pageUrl_fallback:
  "find truthy (map (opt_prop data) urlFields) = None \<Longrightarrow>
   pageUrl eng data (JStr k) (JStr t) =
     Inr (JStr (lit ''https://wiki.intel.com/display/'' @ k @ lit ''/'' @ replace_ws t))"
  by (auto simp: pageUrl_def js_or_def urlFields_def Let_def fallbackUrl_def split: if_splits)

text \<open>
  A title that is an array, as a repeated form field gives, makes the fallback throw.
\<close>

lemma pageUrl_array_title:
  "find truthy (map (opt_prop data) urlFields) = None \<Longrightarrow>
   pageUrl eng data (JStr k) (JArr ts) = Inl (new_Error (not_a_function eng))"
  by (auto simp: pageUrl_def js_or_def urlFields_def Let_def fallbackUrl_def split: if_splits)

text \<open>
  A repeated title field, and no URL in the upstream body: the handler answers 500.
\<close>

lemma array_title_answers_500:
  "fst (handler example_engine (\<lambda>form. Resolved 200 (JObj []))
          \<lparr>body = Some [lit ''pageToBeCreatedTitle'' \<mapsto>
                          JArr [JStr (lit ''Service X''), JStr (lit ''Service Y'')],
                        lit ''wikiSpaceKey'' \<mapsto> JStr (lit ''ENG'')],
           files = Some [], content_type = JStr (lit ''multipart/form-data'')\<rparr>
          \<lparr>store = {}, deleted = [], sent = []\<rparr>)
     = JsonResponse 500
         (JObj [(lit ''status'', JStr (lit ''error'')),
                (lit ''error'', JStr (lit ''Failed to generate Confluence page'')),
                (lit ''message'', JStr (lit ''pageToBeCreatedTitle?.replace is not a function''))])"
  by (simp add: handler_def Let_def field_val_def pageUrl_def js_or_def fallbackUrl_def
      error_response_def new_Error_def example_engine_def)

text \<open>
  C5 (as amended). When the upstream call succeeds, the \<^verbatim>\<open>pageUrl\<close> of the response is the
  first of the upstream body's fields \<^verbatim>\<open>pageURL\<close>, \<^verbatim>\<open>pageUrl\<close>, \<^verbatim>\<open>confluencePageUrl\<close>, \<^verbatim>\<open>url\<close> that
  holds a truthy value (a field that is present but empty, null, false or zero is passed
  over); when none does and the space key and the title are strings, it is the template
  over the space key and the title with every whitespace run replaced by a plus sign.
\<close>

theorem pageUrl_priority:
  assumes "body req = Some b"
    and "truthy (field_val (b (lit ''pageToBeCreatedTitle'')))"
    and "truthy (field_val (b (lit ''wikiSpaceKey'')))"
    and "upstream (formData b (files req)) = Resolved st data"
  shows "(\<forall>u. find truthy (map (opt_prop data) urlFields) = Some u \<longrightarrow>
            opt_prop (json_body (fst (handler eng upstream req w))) (lit ''pageUrl'') = u) \<and>
         (\<forall>k t. find truthy (map (opt_prop data) urlFields) = None \<and>
                field_val (b (lit ''wikiSpaceKey'')) = JStr k \<and>
                field_val (b (lit ''pageToBeCreatedTitle'')) = JStr t \<longrightarrow>
            opt_prop (json_body (fst (handler eng upstream req w))) (lit ''pageUrl'') =
              JStr (lit ''https://wiki.intel.com/display/'' @ k @ lit ''/'' @ replace_ws t))"
proof (intro conjI allI impI)
  fix u assume "find truthy (map (opt_prop data) urlFields) = Some u"
  then have "pageUrl eng data (field_val (b (lit ''wikiSpaceKey'')))
               (field_val (b (lit ''pageToBeCreatedTitle''))) = Inr u"
    by (rule pageUrl_found)
  with assms show "opt_prop (json_body (fst (handler eng upstream req w))) (lit ''pageUrl'') = u"
    by (simp add: handler_valid)
next
  fix k t
  assume h: "find truthy (map (opt_prop data) urlFields) = None \<and>
             field_val (b (lit ''wikiSpaceKey'')) = JStr k \<and>
             field_val (b (lit ''pageToBeCreatedTitle'')) = JStr t"
  then have "pageUrl eng data (field_val (b (lit ''wikiSpaceKey'')))
               (field_val (b (lit ''pageToBeCreatedTitle''))) =
             Inr (JStr (lit ''https://wiki.intel.com/display/'' @ k @ lit ''/'' @ replace_ws t))"
    by (simp add: pageUrl_fallback)
  with assms
  show "opt_prop (json_body (fst (handler eng upstream req w))) (lit ''pageUrl'') =
          JStr (lit ''https://wiki.intel.com/display/'' @ k @ lit ''/'' @ replace_ws t)"
    by (simp add: handler_valid)
qed

text \<open>
  Scenario E (no URL field in the upstream body), and an upstream body with two URL
  fields.
\<close>

theorem pageUrl_priority_witness:
  "let req = \<lparr>body = Some [lit ''pageToBeCreatedTitle'' \<mapsto> JStr (lit ''Service  X guide''),
                           lit ''wikiSpaceKey'' \<mapsto> JStr (lit ''ENG'')],
              files = Some [], content_type = JStr (lit ''multipart/form-data'')\<rparr>;
       w = \<lparr>store = {}, deleted = [], sent = []\<rparr>
   in opt_prop (json_body (fst (handler example_engine (\<lambda>form. Resolved 200 (JObj [])) req w)))
        (lit ''pageUrl'')
        = JStr (lit ''https://wiki.intel.com/display/ENG/Service+X+guide'') \<and>
      opt_prop (json_body (fst (handler example_engine
          (\<lambda>form. Resolved 200 (JObj [(lit ''pageUrl'', JStr (lit ''https://wiki/p'')),
                                      (lit ''url'', JStr (lit ''https://wiki/u''))])) req w)))
        (lit ''pageUrl'')
        = JStr (lit ''https://wiki/p'')"
proof -
  define b where "b = [lit ''pageToBeCreatedTitle'' \<mapsto> JStr (lit ''Service  X guide''),
                       lit ''wikiSpaceKey'' \<mapsto> JStr (lit ''ENG'')]"
  define req where "req = \<lparr>body = Some b, files = Some [],
                            content_type = JStr (lit ''multipart/form-data'')\<rparr>"
  have bd: "body req = Some b"
    by (simp add: req_def)
  have t: "field_val (b (lit ''pageToBeCreatedTitle'')) = JStr (lit ''Service  X guide'')"
    and k: "field_val (b (lit ''wikiSpaceKey'')) = JStr (lit ''ENG'')"
    by (simp_all add: b_def field_val_def)
  have tt: "truthy (field_val (b (lit ''pageToBeCreatedTitle'')))"
    and tk: "truthy (field_val (b (lit ''wikiSpaceKey'')))"
    by (simp_all add: t k)
  have r: "replace_ws (lit ''Service  X guide'') = lit ''Service+X+guide''"
    by (simp add: lit_def is_space_def)
  have u: "lit ''https://wiki.intel.com/display/'' @ lit ''ENG'' @ lit ''/'' @ lit ''Service+X+guide''
             = lit ''https://wiki.intel.com/display/ENG/Service+X+guide''"
    by (simp add: lit_append [symmetric])
  have 1: "opt_prop (json_body (fst (handler example_engine (\<lambda>form. Resolved 200 (JObj [])) req
             \<lparr>store = {}, deleted = [], sent = []\<rparr>))) (lit ''pageUrl'')
           = JStr (lit ''https://wiki.intel.com/display/ENG/Service+X+guide'')"
    using pageUrl_priority [OF bd tt tk, where upstream = "\<lambda>form. Resolved 200 (JObj [])"
        and st = 200 and data = "JObj []" and eng = example_engine
        and w = "\<lparr>store = {}, deleted = [], sent = []\<rparr>"]
    by (simp add: urlFields_def t k r u)
  have 2: "opt_prop (json_body (fst (handler example_engine
             (\<lambda>form. Resolved 200 (JObj [(lit ''pageUrl'', JStr (lit ''https://wiki/p'')),
                                         (lit ''url'', JStr (lit ''https://wiki/u''))])) req
             \<lparr>store = {}, deleted = [], sent = []\<rparr>))) (lit ''pageUrl'')
           = JStr (lit ''https://wiki/p'')"
    using pageUrl_priority [OF bd tt tk, where
          upstream = "\<lambda>form. Resolved 200 (JObj [(lit ''pageUrl'', JStr (lit ''https://wiki/p'')),
                                         (lit ''url'', JStr (lit ''https://wiki/u''))])"
        and st = 200
        and data = "JObj [(lit ''pageUrl'', JStr (lit ''https://wiki/p'')),
                          (lit ''url'', JStr (lit ''https://wiki/u''))]"
        and eng = example_engine
        and w = "\<lparr>store = {}, deleted = [], sent = []\<rparr>"]
    by (simp add: urlFields_def)
  from 1 2 show ?thesis
    unfolding Let_def req_def b_def by simp
qed

text \<open>
  C5 fails as stated: an upstream body whose \<^verbatim>\<open>pageURL\<close> is present and empty has that field
  as its first present one, yet the response carries the later \<^verbatim>\<open>url\<close>.
\<close>

theorem empty_field_counterexample:
  "first_present (JObj [(lit ''pageURL'', JStr []), (lit ''url'', JStr (lit ''https://wiki/u''))])
     = Some (JStr []) \<and>
   fst (handler example_engine
          (\<lambda>form. Resolved 200
             (JObj [(lit ''pageURL'', JStr []), (lit ''url'', JStr (lit ''https://wiki/u''))]))
          \<lparr>body = Some [lit ''pageToBeCreatedTitle'' \<mapsto> JStr (lit ''Service X''),
                        lit ''wikiSpaceKey'' \<mapsto> JStr (lit ''ENG'')],
           files = Some [], content_type = JStr (lit ''multipart/form-data'')\<rparr>
          \<lparr>store = {}, deleted = [], sent = []\<rparr>)
     = JsonResponse 200
         (JObj [(lit ''message'', JStr (lit ''Confluence page generated successfully'')),
                (lit ''pageUrl'', JStr (lit ''https://wiki/u''))]) \<and>
   JStr (lit ''https://wiki/u'') \<noteq> JStr []"
  by (simp add: first_present_def urlFields_def handler_def Let_def field_val_def pageUrl_def
      js_or_def cleanup_def)

text \<open>
  C9 (as amended). When the upstream call succeeds and the title and the space key are
  non-empty strings, the response has status 200 and the body \<^verbatim>\<open>{message, pageUrl}\<close> where
  the message is the text \<^verbatim>\<open>Confluence page generated successfully\<close> and \<^verbatim>\<open>pageUrl\<close> is the
  first truthy URL field of the upstream body or, without one, the fallback template.
\<close>

theorem success_response:
  assumes "body req = Some b"
    and "field_val (b (lit ''pageToBeCreatedTitle'')) = JStr t" and "t \<noteq> []"
    and "field_val (b (lit ''wikiSpaceKey'')) = JStr k" and "k \<noteq> []"
    and "upstream (formData b (files req)) = Resolved st data"
  shows "fst (handler eng upstream req w) =
           JsonResponse 200
             (JObj [(lit ''message'', JStr (lit ''Confluence page generated successfully'')),
                    (lit ''pageUrl'',
                     (case find truthy (map (opt_prop data) urlFields) of
                        Some u \<Rightarrow> u
                      | None \<Rightarrow>
                          JStr (lit ''https://wiki.intel.com/display/'' @ k @ lit ''/'' @
                                replace_ws t)))])"
proof (cases "find truthy (map (opt_prop data) urlFields)")
  case None
  with assms show ?thesis
    by (simp add: handler_valid pageUrl_fallback)
next
  case (Some u)
  with assms show ?thesis
    by (simp add: handler_valid pageUrl_found)
qed

text \<open>
  Scenario A at the handler.
\<close>

theorem success_response_witness:
  "fst (handler example_engine
          (\<lambda>form. Resolved 200 (JObj [(lit ''pageURL'', JStr (lit ''https://wiki/x''))]))
        \<lparr>body = Some [lit ''pageToBeCreatedTitle'' \<mapsto> JStr (lit ''Service X''),
                      lit ''wikiSpaceKey'' \<mapsto> JStr (lit ''ENG'')],
         files = Some [], content_type = JStr (lit ''multipart/form-data'')\<rparr>
        \<lparr>store = {}, deleted = [], sent = []\<rparr>)
   = JsonResponse 200
       (JObj [(lit ''message'', JStr (lit ''Confluence page generated successfully'')),
              (lit ''pageUrl'', JStr (lit ''https://wiki/x''))])"
proof -
  define req where "req =
      \<lparr>body = Some [lit ''pageToBeCreatedTitle'' \<mapsto> JStr (lit ''Service X''),
                    lit ''wikiSpaceKey'' \<mapsto> JStr (lit ''ENG'')],
       files = Some [], content_type = JStr (lit ''multipart/form-data'')\<rparr>"
  have b: "body req = Some [lit ''pageToBeCreatedTitle'' \<mapsto> JStr (lit ''Service X''),
                            lit ''wikiSpaceKey'' \<mapsto> JStr (lit ''ENG'')]"
    by (simp add: req_def)
  show ?thesis
    unfolding req_def [symmetric]
    using success_response [OF b body_lookup(1) _ body_lookup(2), where
        upstream = "\<lambda>form. Resolved 200 (JObj [(lit ''pageURL'', JStr (lit ''https://wiki/x''))])"
        and st = 200 and data = "JObj [(lit ''pageURL'', JStr (lit ''https://wiki/x''))]"
        and eng = example_engine
        and w = "\<lparr>store = {}, deleted = [], sent = []\<rparr>"]
    by (simp add: urlFields_def)
qed

text \<open>
  C9 fails as stated: in Scenario A the route answers with the message
  \<^verbatim>\<open>Confluence page generated successfully\<close>, not with \<^verbatim>\<open>success\<close>.
\<close>

theorem success_message_counterexample:
  "fst (generate_confluence example_engine
     (\<lambda>form. Resolved 200 (JObj [(lit ''pageURL'', JStr (lit ''https://wiki/x''))]))
     (Multipart (JStr (lit ''multipart/form-data''))
        [lit ''pageToBeCreatedTitle'' \<mapsto> JStr (lit ''Service X''),
         lit ''wikiSpaceKey'' \<mapsto> JStr (lit ''ENG'')]
        [])
     \<lparr>store = {}, deleted = [], sent = []\<rparr>)
   = JsonResponse 200
        (JObj [(lit ''message'', JStr (lit ''Confluence page generated successfully'')),
               (lit ''pageUrl'', JStr (lit ''https://wiki/x''))]) \<and>
   JsonResponse 200
        (JObj [(lit ''message'', JStr (lit ''Confluence page generated successfully'')),
               (lit ''pageUrl'', JStr (lit ''https://wiki/x''))])
   \<noteq> JsonResponse 200
        (JObj [(lit ''message'', JStr (lit ''success'')),
               (lit ''pageUrl'', JStr (lit ''https://wiki/x''))])"
  by (simp add: generate_confluence_def handler_def Let_def field_val_def pageUrl_def js_or_def
      cleanup_def)

text \<open>
  C6. When the upstream call fails, the response is decided by the error alone, in three
  exclusive cases: an upstream response gives its status with
  \<^verbatim>\<open>{status, error, details, message}\<close> and the upstream body as details; no response but a
  request gives 500 with \<^verbatim>\<open>error: "No response from Mulesoft API"\<close>; anything else gives 500
  with \<^verbatim>\<open>status: "error"\<close> and the error's message.
\<close>

theorem upstream_failure_mapping:
  assumes "body req = Some b"
    and "truthy (field_val (b (lit ''pageToBeCreatedTitle'')))"
    and "truthy (field_val (b (lit ''wikiSpaceKey'')))"
    and "upstream (formData b (files req)) = Rejected error"
  shows "(\<forall>st details. err_response error = Some (st, details) \<longrightarrow>
            fst (handler eng upstream req w) =
              JsonResponse st
                (JObj [(lit ''status'', JStr (lit ''error'')),
                       (lit ''error'', JStr (lit ''Mulesoft API error'')),
                       (lit ''details'', details),
                       (lit ''message'', JStr (err_message error))])) \<and>
         (err_response error = None \<and> err_request error \<longrightarrow>
            fst (handler eng upstream req w) =
              JsonResponse 500
                (JObj [(lit ''status'', JStr (lit ''error'')),
                       (lit ''error'', JStr (lit ''No response from Mulesoft API'')),
                       (lit ''message'', JStr (lit ''Network or timeout error''))])) \<and>
         (err_response error = None \<and> \<not> err_request error \<longrightarrow>
            fst (handler eng upstream req w) =
              JsonResponse 500
                (JObj [(lit ''status'', JStr (lit ''error'')),
                       (lit ''error'', JStr (lit ''Failed to generate Confluence page'')),
                       (lit ''message'', JStr (err_message error))]))"
  using assms by (simp add: handler_valid error_response_def)

text \<open>
  An upstream 503, a timeout and a request that could not be set up.
\<close>

theorem upstream_failure_mapping_witness:
  "let req = \<lparr>body = Some [lit ''pageToBeCreatedTitle'' \<mapsto> JStr (lit ''Service X''),
                           lit ''wikiSpaceKey'' \<mapsto> JStr (lit ''ENG'')],
              files = Some [], content_type = JStr (lit ''multipart/form-data'')\<rparr>;
       w = \<lparr>store = {}, deleted = [], sent = []\<rparr>
   in fst (handler example_engine (\<lambda>form. Rejected
             \<lparr>err_message = lit ''Request failed with status code 503'',
              err_response = Some (503, JObj [(lit ''reason'', JStr (lit ''maintenance''))]),
              err_request = True\<rparr>) req w)
        = JsonResponse 503
            (JObj [(lit ''status'', JStr (lit ''error'')),
                   (lit ''error'', JStr (lit ''Mulesoft API error'')),
                   (lit ''details'', JObj [(lit ''reason'', JStr (lit ''maintenance''))]),
                   (lit ''message'', JStr (lit ''Request failed with status code 503''))]) \<and>
      fst (handler example_engine (\<lambda>form. Rejected
             \<lparr>err_message = lit ''timeout of 300000ms exceeded'',
              err_response = None, err_request = True\<rparr>) req w)
        = JsonResponse 500
            (JObj [(lit ''status'', JStr (lit ''error'')),
                   (lit ''error'', JStr (lit ''No response from Mulesoft API'')),
                   (lit ''message'', JStr (lit ''Network or timeout error''))]) \<and>
      fst (handler example_engine (\<lambda>form. Rejected
             \<lparr>err_message = lit ''Invalid URL'',
              err_response = None, err_request = False\<rparr>) req w)
        = JsonResponse 500
            (JObj [(lit ''status'', JStr (lit ''error'')),
                   (lit ''error'', JStr (lit ''Failed to generate Confluence page'')),
                   (lit ''message'', JStr (lit ''Invalid URL''))])"
proof -
  define req where "req =
      \<lparr>body = Some [lit ''pageToBeCreatedTitle'' \<mapsto> JStr (lit ''Service X''),
                    lit ''wikiSpaceKey'' \<mapsto> JStr (lit ''ENG'')],
       files = Some [], content_type = JStr (lit ''multipart/form-data'')\<rparr>"
  have b: "body req = Some [lit ''pageToBeCreatedTitle'' \<mapsto> JStr (lit ''Service X''),
                            lit ''wikiSpaceKey'' \<mapsto> JStr (lit ''ENG'')]"
    by (simp add: req_def)
  have tt: "truthy (field_val ([lit ''pageToBeCreatedTitle'' \<mapsto> JStr (lit ''Service X''),
               lit ''wikiSpaceKey'' \<mapsto> JStr (lit ''ENG'')] (lit ''pageToBeCreatedTitle'')))"
    and tk: "truthy (field_val ([lit ''pageToBeCreatedTitle'' \<mapsto> JStr (lit ''Service X''),
               lit ''wikiSpaceKey'' \<mapsto> JStr (lit ''ENG'')] (lit ''wikiSpaceKey'')))"
    by (simp_all add: field_val_def)
  note m = upstream_failure_mapping [OF b tt tk, where eng = example_engine]
  show ?thesis
    unfolding Let_def req_def [symmetric]
    using
      m [where upstream = "\<lambda>form. Rejected
             \<lparr>err_message = lit ''Request failed with status code 503'',
              err_response = Some (503, JObj [(lit ''reason'', JStr (lit ''maintenance''))]),
              err_request = True\<rparr>" and w = "\<lparr>store = {}, deleted = [], sent = []\<rparr>"]
      m [where upstream = "\<lambda>form. Rejected
             \<lparr>err_message = lit ''timeout of 300000ms exceeded'',
              err_response = None, err_request = True\<rparr>" and w = "\<lparr>store = {}, deleted = [], sent = []\<rparr>"]
      m [where upstream = "\<lambda>form. Rejected
             \<lparr>err_message = lit ''Invalid URL'',
              err_response = None, err_request = False\<rparr>" and w = "\<lparr>store = {}, deleted = [], sent = []\<rparr>"]
    by simp
qed

section \<open>Unrecognized text fields\<close>






section \<open>Whitespace runs\<close>

text \<open>
  What \<open>replace_ws\<close> does to a title: text without whitespace is kept as it is, a maximal
  run of whitespace becomes one plus sign, and no whitespace is left.
\<close>

lemma replace_ws_plain: "(\<And>c. c \<in> set s \<Longrightarrow> \<not> is_space c) \<Longrightarrow> replace_ws s = s"
  by (induction s) auto

lemma replace_ws_append_plain:
  "(\<And>c. c \<in> set a \<Longrightarrow> \<not> is_space c) \<Longrightarrow> replace_ws (a @ s) = a @ replace_ws s"
  by (induction a) auto

lemma replace_ws_run:
  assumes "run \<noteq> []" and "\<And>c. c \<in> set run \<Longrightarrow> is_space c"
    and "rest = [] \<or> \<not> is_space (hd rest)"
  shows "replace_ws (run @ rest) = 43 # replace_ws rest"
proof -
  from assms(1) obtain c cs where run: "run = c # cs" by (cases run) auto
  with assms(2) have "is_space c" and cs: "\<And>d. d \<in> set cs \<Longrightarrow> is_space d" by auto
  from cs assms(3) have "dropWhile is_space (cs @ rest) = rest"
    by (cases rest) (auto simp: dropWhile_append3 dropWhile_append)
  with \<open>is_space c\<close> run show ?thesis by simp
qed

lemma replace_ws_no_space: "c \<in> set (replace_ws s) \<Longrightarrow> \<not> is_space c"
proof (induction s arbitrary: c rule: replace_ws.induct)
  case 1
  then show ?case by simp
next
  case (2 d ds)
  have plus: "\<not> is_space 43" by (simp add: is_space_def)
  show ?case
  proof (cases "is_space d")
    case True
    with "2.prems" have "c = 43 \<or> c \<in> set (replace_ws (dropWhile is_space ds))" by simp
    with True "2.IH"(1) plus show ?thesis by auto
  next
    case False
    with "2.prems" have "c = d \<or> c \<in> set (replace_ws ds)" by simp
    with False "2.IH"(2) show ?thesis by auto
  qed
qed

section \<open>Cleanup\<close>

lemma fold_try_unlink_deleted:
  "distinct (map path l) \<Longrightarrow> path ` set l \<subseteq> store w \<Longrightarrow>
   deleted (fold try_unlink l w) = deleted w @ map path l"
proof (induction l arbitrary: w)
  case Nil
  then show ?case by simp
next
  case (Cons f l)
  let ?w = "w\<lparr>store := store w - {path f}, deleted := deleted w @ [path f]\<rparr>"
  from Cons.prems have "try_unlink f w = ?w"
    by (simp add: try_unlink_def unlinkSync_def)
  moreover from Cons.prems have "deleted (fold try_unlink l ?w) = deleted ?w @ map path l"
    by (intro Cons.IH) (auto simp: image_iff)
  ultimately show ?case by simp
qed

lemma cleanup_store: "store (cleanup (Some l) w) = store w - path ` set l"
  by (simp add: cleanup_def fold_try_unlink_store)

lemma cleanup_sent: "sent (cleanup fs w) = sent w"
  by (simp add: cleanup_def fold_try_unlink_sent split: option.splits)

lemma cleanup_deleted:
  "distinct (map path l) \<Longrightarrow> path ` set l \<subseteq> store w \<Longrightarrow>
   deleted (cleanup (Some l) w) = deleted w @ map path l"
  by (simp add: cleanup_def fold_try_unlink_deleted)

text \<open>
  Past validation, every exit of the handler runs the cleanup block.
\<close>

lemma handler_cleans_up:
  assumes "body req = Some b"
    and "truthy (field_val (b (lit ''pageToBeCreatedTitle'')))"
    and "truthy (field_val (b (lit ''wikiSpaceKey'')))"
    and "files req = Some l"
  shows "store (snd (handler eng upstream req w)) = store w - path ` set l"
    and "distinct (map path l) \<Longrightarrow> path ` set l \<subseteq> store w \<Longrightarrow>
         deleted (snd (handler eng upstream req w)) = deleted w @ map path l"
  using assms
  by (auto simp: handler_valid cleanup_store cleanup_deleted split: axios_outcome.splits sum.splits)

text \<open>
  C1, at Scenario B: a multipart request with one file under \<^verbatim>\<open>tddIrdFiles\<close> and a title but
  no space key. The file is stored, the handler answers 400 from its validation, and
  the world it leaves still holds the file: nothing was deleted.
\<close>

theorem validation_exit_keeps_files:
  "generate_confluence example_engine (\<lambda>form. Resolved 200 JNull)
     (Multipart (JStr (lit ''multipart/form-data''))
        [lit ''pageToBeCreatedTitle'' \<mapsto> JStr (lit ''Service X'')]
        [\<lparr>in_fieldname = lit ''tddIrdFiles'', in_originalname = lit ''design.docx'',
          in_mimetype = lit ''application/msword'', in_now = 1000\<rparr>])
     \<lparr>store = {}, deleted = [], sent = []\<rparr>
   = (JsonResponse 400
        (JObj [(lit ''status'', JStr (lit ''error'')),
               (lit ''message'', JStr (lit ''wikiSpaceKey is required''))]),
      \<lparr>store = {lit ''uploads/1000-design.docx''}, deleted = [], sent = []\<rparr>)"
proof -
  have d: "digits 1000 = lit ''1000''"
    by (simp add: digits.simps lit_def)
  have p: "uploadDir @ lit ''1000'' @ lit ''-'' @ lit ''design.docx'' = lit ''uploads/1000-design.docx''"
    by (simp add: uploadDir_def lit_append [symmetric])
  show ?thesis
    by (simp add: generate_confluence_def fileFilter_def allowedFields_def store_file_def
        stored_path_def filename_def d p handler_def Let_def field_val_def required_def)
qed

end
